theory Spec2Isabelle
  imports Complex_Main "HOL-Library.AList"
begin

section \<open>The dataset analyzer of \<open>app.py\<close>\<close>

text \<open>
  The program is one function, \<open>analyze_csv_data\<close> (lines 14-85 of \<open>app.py\<close>), built on
  calls into the pandas library. The embedding keeps the function's own logic (the
  missing-cell arithmetic, the 80 percent rule, the two kinds of column record, the
  summary text) as HOL definitions, and takes the library routines whose code is not
  part of the repository (the CSV reader, the string-to-number conversion, the
  reductions \<open>min\<close>, \<open>max\<close>, \<open>mean\<close>, \<open>median\<close>, \<open>std\<close>, and the \<open>.2f\<close> formatter) as
  the fields of a record that every definition receives. Every theorem holds for all
  values of that record. Two claims are about a library routine itself, the standard
  deviation and the reader's treatment of NA markers; for them the routine is modelled
  from the specification, in the section on properties.
\<close>

subsection \<open>Cells, frames and the library\<close>

text \<open>
  A cell of a parsed frame is the missing marker (pandas' NaN), a number (a cell of a
  column that the reader typed as numeric), or a raw string. The type \<open>'f\<close> stands for
  the library's numbers.
\<close>

datatype 'f cell = Missing | Num 'f | Text string

text \<open>
  A frame: the length of its index (\<open>df.shape[0]\<close>) and its columns in order, each a
  name with its cells.
\<close>

record 'f dataframe =
  index_len :: nat
  columns :: "(string \<times> 'f cell list) list"

text \<open>
  The reader returns frames whose columns all have \<open>index_len\<close> cells and whose column
  names are distinct (pandas renames a repeated header).
\<close>

definition wf_dataframe :: "'f dataframe \<Rightarrow> bool" where
  "wf_dataframe df =
     (distinct (map fst (columns df)) \<and>
      list_all (\<lambda>nc. length (snd nc) = index_len df) (columns df))"

text \<open>
  The library. \<open>read_csv\<close> returns \<open>Inl msg\<close> when \<open>pd.read_csv\<close> raises (\<open>msg\<close> is the
  text of the exception). \<open>str_to_numeric\<close> is what \<open>pd.to_numeric(.., errors='coerce')\<close>
  does to one string: \<open>None\<close> is the coerced NaN.
\<close>

record 'f pandas =
  read_csv :: "string \<Rightarrow> string + 'f dataframe"
  str_to_numeric :: "string \<Rightarrow> 'f option"
  series_min :: "'f list \<Rightarrow> 'f"
  series_max :: "'f list \<Rightarrow> 'f"
  series_mean :: "'f list \<Rightarrow> 'f"
  series_median :: "'f list \<Rightarrow> 'f"
  series_std :: "'f list \<Rightarrow> 'f"
  format_2f :: "'f \<Rightarrow> string"
  format_pct_2f :: "rat \<Rightarrow> string"

subsection \<open>Arithmetic\<close>

text \<open>
  The two divisions of the program (lines 33 and 49) divide one integer by another and
  give a float. The model computes the quotient exactly, as a rational: the correctly
  rounded float quotient stands to the float \<open>0.8\<close> as the exact quotient stands to
  \<open>4/5\<close> for every divisor below \<open>2 * 10^15\<close>, far above any column that fits in
  memory. A zero divisor is a failure of its own in the model (numpy would warn and give
  \<open>inf\<close> or \<open>nan\<close>), so that "the division is never reached with a zero divisor" is a
  statement about the model.
\<close>

datatype fault = DivisionByZero

definition truediv :: "int \<Rightarrow> int \<Rightarrow> fault + rat" where
  "truediv a b = (if b = 0 then Inl DivisionByZero else Inr (of_int a / of_int b))"

subsection \<open>Series operations\<close>

fun isnull :: "'f cell \<Rightarrow> bool" where
  "isnull Missing = True"
| "isnull (Num x) = False"
| "isnull (Text s) = False"

text \<open>\<open>col_data.isnull().sum()\<close>\<close>

definition isnull_sum :: "'f cell list \<Rightarrow> nat" where
  "isnull_sum col_data = length (filter isnull col_data)"

text \<open>\<open>pd.to_numeric(col_data, errors='coerce')\<close>, cell by cell.\<close>

fun to_numeric :: "'f pandas \<Rightarrow> 'f cell \<Rightarrow> 'f option" where
  "to_numeric L Missing = None"
| "to_numeric L (Num x) = Some x"
| "to_numeric L (Text s) = str_to_numeric L s"

text \<open>\<open>pd.to_numeric(col_data, errors='coerce').dropna()\<close>\<close>

definition to_numeric_dropna :: "'f pandas \<Rightarrow> 'f cell list \<Rightarrow> 'f list" where
  "to_numeric_dropna L col_data = List.map_filter (to_numeric L) col_data"

text \<open>
  \<open>col_data.value_counts()\<close>: the non-missing values are tallied in order of first
  appearance, then sorted by falling count. (The order of values with equal counts is
  the library's; nothing below depends on it.)
\<close>

fun tally :: "'a \<Rightarrow> ('a \<times> nat) list \<Rightarrow> ('a \<times> nat) list" where
  "tally v [] = [(v, 1)]"
| "tally v (kn # kns) = (if fst kn = v then (v, Suc (snd kn)) # kns else kn # tally v kns)"

fun count_values :: "'f cell list \<Rightarrow> ('f cell \<times> nat) list \<Rightarrow> ('f cell \<times> nat) list" where
  "count_values [] acc = acc"
| "count_values (c # cs) acc = count_values cs (if isnull c then acc else tally c acc)"

definition value_counts :: "'f cell list \<Rightarrow> ('f cell \<times> nat) list" where
  "value_counts col_data = sort_key (\<lambda>kn. - int (snd kn)) (count_values col_data [])"

subsection \<open>One column\<close>

text \<open>
  The two shapes of a \<open>column_info\<close> entry (lines 50-59 and 63-68); the discriminators
  read the entry's \<open>type\<close> key.
\<close>

datatype 'f column_info =
    is_Numeric: Numeric (info_min: 'f) (info_max: 'f) (info_mean: 'f) (info_median: 'f) (info_std: 'f)
      (info_count: nat) (missing_count: nat)
  | is_Categorical: Categorical (unique_values: nat) (counts: "('f cell \<times> nat) list") (missing_count: nat)

text \<open>
  The body of the loop over \<open>df.columns\<close> (lines 39-68). Python's \<open>and\<close> does not
  evaluate its right operand when the left one is false: the division is under the test
  that \<open>numeric_col_data\<close> is not empty.
\<close>

definition classify :: "'f pandas \<Rightarrow> 'f cell list \<Rightarrow> fault + 'f column_info" where
  "classify L col_data =
     (let numeric_col_data = to_numeric_dropna L col_data;
          col_missing_count = isnull_sum col_data;
          categorical =
            (let counts = value_counts col_data
             in Categorical (length counts) counts col_missing_count)
      in if numeric_col_data = [] then Inr categorical
         else
           (case truediv (int (length numeric_col_data))
                   (int (length col_data) - int col_missing_count) of
              Inl e \<Rightarrow> Inl e
            | Inr ratio \<Rightarrow>
                if ratio > 8 / 10
                then Inr (Numeric (series_min L numeric_col_data) (series_max L numeric_col_data)
                            (series_mean L numeric_col_data) (series_median L numeric_col_data)
                            (series_std L numeric_col_data) (length numeric_col_data)
                            col_missing_count)
                else Inr categorical))"

subsection \<open>The whole frame\<close>

text \<open>\<open>df.shape\<close>\<close>

definition shape :: "'f dataframe \<Rightarrow> nat \<times> nat" where
  "shape df = (index_len df, length (columns df))"

text \<open>\<open>df.isnull().sum().sum()\<close>: the missing cells per column, then their total.\<close>

definition isnull_sum_sum :: "'f dataframe \<Rightarrow> nat" where
  "isnull_sum_sum df = sum_list (map (\<lambda>nc. isnull_sum (snd nc)) (columns df))"

text \<open>Lines 30-33.\<close>

definition missing_percentage :: "'f dataframe \<Rightarrow> fault + rat" where
  "missing_percentage df =
     (case shape df of (num_rows, num_cols) \<Rightarrow>
        let missing_values_count = isnull_sum_sum df;
            total_cells = num_rows * num_cols
        in if total_cells > 0
           then (case truediv (int missing_values_count) (int total_cells) of
                   Inl e \<Rightarrow> Inl e
                 | Inr q \<Rightarrow> Inr (q * 100))
           else Inr 0)"

text \<open>
  The loop of lines 38-68. \<open>column_info\<close> is a Python dict: an assignment to a key that
  is present replaces its value in place, a new key goes to the end.
\<close>

fun analyze_columns ::
  "'f pandas \<Rightarrow> (string \<times> 'f cell list) list \<Rightarrow> (string \<times> 'f column_info) list
     \<Rightarrow> fault + (string \<times> 'f column_info) list" where
  "analyze_columns L [] column_info = Inr column_info"
| "analyze_columns L (nc # rest) column_info =
     (case classify L (snd nc) of
        Inl e \<Rightarrow> Inl e
      | Inr info \<Rightarrow> analyze_columns L rest (AList.update (fst nc) info column_info))"

subsection \<open>The summary text\<close>

definition digit_char :: "nat \<Rightarrow> char" where
  "digit_char d = char_of (48 + d)"

text \<open>Python's \<open>str\<close> of a natural number.\<close>

function str_nat :: "nat \<Rightarrow> string" where
  "str_nat n = (if n < 10 then [digit_char n] else str_nat (n div 10) @ [digit_char (n mod 10)])"
  by pat_completeness auto
termination
  by (relation "measure id") auto

definition newline :: string where
  "newline = [CHR 0x0A]"

text \<open>Lines 75-79: the bullet of one column.\<close>

fun column_line :: "'f pandas \<Rightarrow> string \<times> 'f column_info \<Rightarrow> string" where
  "column_line L (col_name, Numeric mn mx mean med sd cnt miss) =
     ''- **'' @ col_name @ ''**: '' @
     ''Numeric (Min: '' @ format_2f L mn @ '', Max: '' @ format_2f L mx @
     '', Mean: '' @ format_2f L mean @ '', Median: '' @ format_2f L med @
     '', Std Dev: '' @ format_2f L sd @ '', Non-null: '' @ str_nat cnt @
     ''). Missing: '' @ str_nat miss @ '' values.'' @ newline"
| "column_line L (col_name, Categorical uniq cnts miss) =
     ''- **'' @ col_name @ ''**: '' @
     ''Categorical ('' @ str_nat uniq @ '' unique values). Missing: '' @ str_nat miss @
     '' values.'' @ newline"

text \<open>Lines 71-79.\<close>

definition summary_text ::
  "'f pandas \<Rightarrow> nat \<Rightarrow> nat \<Rightarrow> nat \<Rightarrow> rat \<Rightarrow> (string \<times> 'f column_info) list \<Rightarrow> string" where
  "summary_text L num_rows num_cols missing_values_count missing_pct column_info =
     ''The dataset contains '' @ str_nat num_rows @ '' rows and '' @ str_nat num_cols @
     '' columns.'' @ newline @
     ''Total missing values across the dataset: '' @ str_nat missing_values_count @
     '' ('' @ format_pct_2f L missing_pct @ ''% of all cells).'' @ newline @ newline @
     ''Column Details:'' @ newline @
     concat (map (column_line L) column_info)"

subsection \<open>\<open>analyze_csv_data\<close>\<close>

text \<open>
  What the function returns: the dict with the one key \<open>error\<close> (line 28), or the dict
  with the keys \<open>summary\<close>, \<open>column_info\<close> and \<open>dataframe\<close> (lines 81-85).
\<close>

datatype 'f analysis =
    Failed (error_message: string)
  | Analysis (summary: string) (infos: "(string \<times> 'f column_info) list")
      (frame: "'f dataframe")

definition analyze_csv_data :: "'f pandas \<Rightarrow> string \<Rightarrow> fault + 'f analysis" where
  "analyze_csv_data L csv_content =
     (case read_csv L csv_content of
        Inl e \<Rightarrow> Inr (Failed (''Failed to parse CSV: '' @ e))
      | Inr df \<Rightarrow>
          (case missing_percentage df of
             Inl x \<Rightarrow> Inl x
           | Inr missing_pct \<Rightarrow>
               (case analyze_columns L (columns df) [] of
                  Inl x \<Rightarrow> Inl x
                | Inr column_info \<Rightarrow>
                    Inr (Analysis
                           (summary_text L (fst (shape df)) (snd (shape df))
                              (isnull_sum_sum df) missing_pct column_info)
                           column_info df))))"

subsection \<open>A small instance of the library\<close>

text \<open>
  An instance on which the definitions run. Its numbers are integers, a string converts
  when it is a run of decimal digits, and a reduction is kept as its name applied to its
  arguments: the instance computes no statistics. Its reader is a table of two inputs:
  the empty text, which pandas refuses, and a table of three rows and two columns.
\<close>

datatype sym = Lit int | Reduce string "sym list"

definition is_digit :: "char \<Rightarrow> bool" where
  "is_digit c = (48 \<le> (of_char c :: nat) \<and> (of_char c :: nat) \<le> 57)"

definition digits_to_numeric :: "string \<Rightarrow> sym option" where
  "digits_to_numeric s =
     (if s \<noteq> [] \<and> list_all is_digit s
      then Some (Lit (int (foldl (\<lambda>n c. 10 * n + (of_char c - 48)) 0 s)))
      else None)"

fun sym_2f :: "sym \<Rightarrow> string" where
  "sym_2f (Lit n) = (if n < 0 then ''-'' else []) @ str_nat (nat \<bar>n\<bar>) @ ''.00''"
| "sym_2f (Reduce f xs) = f"

text \<open>Two decimals of a rational that is not negative, cut off (the library rounds).\<close>

definition cut_2f :: "rat \<Rightarrow> string" where
  "cut_2f q =
     str_nat (nat \<lfloor>q\<rfloor>) @ ''.'' @
     [digit_char (nat \<lfloor>q * 10\<rfloor> mod 10), digit_char (nat \<lfloor>q * 100\<rfloor> mod 10)]"

definition sample_csv :: string where
  "sample_csv = ''a,b'' @ newline @ ''1,x'' @ newline @ ''2,y'' @ newline @ ''3,z'' @ newline"

definition sample_frame :: "sym dataframe" where
  "sample_frame =
     \<lparr>index_len = 3,
      columns = [(''a'', [Num (Lit 1), Num (Lit 2), Num (Lit 3)]),
                 (''b'', [Text ''x'', Text ''y'', Text ''z''])]\<rparr>"

definition sample_read_csv :: "string \<Rightarrow> string + sym dataframe" where
  "sample_read_csv s =
     (if s = [] then Inl ''No columns to parse from file''
      else if s = sample_csv then Inr sample_frame
      else Inl ''not one of the two inputs of the table'')"

definition sample_pandas :: "sym pandas" where
  "sample_pandas =
     \<lparr>read_csv = sample_read_csv,
      str_to_numeric = digits_to_numeric,
      series_min = Reduce ''min'',
      series_max = Reduce ''max'',
      series_mean = Reduce ''mean'',
      series_median = Reduce ''median'',
      series_std = Reduce ''std'',
      format_2f = sym_2f,
      format_pct_2f = cut_2f\<rparr>"

section \<open>Properties\<close>

subsection \<open>Notions of the specification\<close>

text \<open>
  The specification speaks of the fraction of a column's non-missing values that parse
  as a number. These definitions follow its words; \<open>classify\<close> above follows the code.
\<close>

definition spec_non_missing :: "'f cell list \<Rightarrow> 'f cell list" where
  "spec_non_missing col = filter (\<lambda>c. \<not> isnull c) col"

definition spec_parses :: "'f pandas \<Rightarrow> 'f cell \<Rightarrow> bool" where
  "spec_parses L c = (to_numeric L c \<noteq> None)"

definition spec_numeric_fraction :: "'f pandas \<Rightarrow> 'f cell list \<Rightarrow> rat" where
  "spec_numeric_fraction L col =
     of_nat (length (filter (spec_parses L) (spec_non_missing col))) /
     of_nat (length (spec_non_missing col))"

subsection \<open>The library's standard deviation\<close>

text \<open>
  Numbers with the undefined value: a real (floats are taken exactly) or \<open>NaN\<close>.
\<close>

datatype number = Finite real | NaN

fun finite_values :: "number list \<Rightarrow> real list" where
  "finite_values [] = []"
| "finite_values (Finite r # xs) = r # finite_values xs"
| "finite_values (NaN # xs) = finite_values xs"

text \<open>
  Modelled from the spec: pandas' \<open>Series.std()\<close>, which line 56 calls with its default
  arguments and whose code is not part of the repository. Section 4.1, step 4, fixes it
  as the sample standard deviation, dividing by \<open>n - 1\<close>, and as undefined (NaN, not an
  error) when there is one value; the library's documentation says the same (\<open>ddof=1\<close>,
  undefined values skipped).
\<close>

definition sample_std :: "number list \<Rightarrow> number" where
  "sample_std xs =
     (let vs = finite_values xs; n = length vs
      in if n < 2 then NaN
         else let m = sum_list vs / real n
              in Finite (sqrt (sum_list (map (\<lambda>v. (v - m)\<^sup>2) vs) / real (n - 1))))"

text \<open>
  An instance of the library on these numbers, with the same two-input reader as the
  small instance above: the reductions are the exact statistics of the defined values,
  and a string converts when it is a run of decimal digits.
\<close>

definition exact_min :: "number list \<Rightarrow> number" where
  "exact_min xs = (case finite_values xs of [] \<Rightarrow> NaN | v # vs \<Rightarrow> Finite (fold min vs v))"

definition exact_max :: "number list \<Rightarrow> number" where
  "exact_max xs = (case finite_values xs of [] \<Rightarrow> NaN | v # vs \<Rightarrow> Finite (fold max vs v))"

definition exact_mean :: "number list \<Rightarrow> number" where
  "exact_mean xs =
     (let vs = finite_values xs
      in if vs = [] then NaN else Finite (sum_list vs / real (length vs)))"

definition exact_median :: "number list \<Rightarrow> number" where
  "exact_median xs =
     (let vs = sort (finite_values xs); n = length vs
      in if n = 0 then NaN
         else if odd n then Finite (vs ! (n div 2))
         else Finite ((vs ! (n div 2 - 1) + vs ! (n div 2)) / 2))"

definition digits_to_number :: "string \<Rightarrow> number option" where
  "digits_to_number s =
     (if s \<noteq> [] \<and> list_all is_digit s
      then Some (Finite (real (foldl (\<lambda>n c. 10 * n + (of_char c - 48)) 0 s)))
      else None)"

text \<open>Two decimals, cut off (the library rounds).\<close>

fun number_2f :: "number \<Rightarrow> string" where
  "number_2f NaN = ''nan''"
| "number_2f (Finite r) =
     (if r < 0 then ''-'' else []) @ str_nat (nat \<lfloor>\<bar>r\<bar>\<rfloor>) @ ''.'' @
     [digit_char (nat \<lfloor>\<bar>r\<bar> * 10\<rfloor> mod 10), digit_char (nat \<lfloor>\<bar>r\<bar> * 100\<rfloor> mod 10)]"

definition exact_read_csv :: "string \<Rightarrow> string + number dataframe" where
  "exact_read_csv s =
     (if s = [] then Inl ''No columns to parse from file''
      else if s = sample_csv
      then Inr \<lparr>index_len = 3,
                columns = [(''a'', [Num (Finite 1), Num (Finite 2), Num (Finite 3)]),
                           (''b'', [Text ''x'', Text ''y'', Text ''z''])]\<rparr>
      else Inl ''not one of the two inputs of the table'')"

definition exact_pandas :: "number pandas" where
  "exact_pandas =
     \<lparr>read_csv = exact_read_csv,
      str_to_numeric = digits_to_number,
      series_min = exact_min,
      series_max = exact_max,
      series_mean = exact_mean,
      series_median = exact_median,
      series_std = sample_std,
      format_2f = number_2f,
      format_pct_2f = cut_2f\<rparr>"

subsection \<open>The reader's treatment of NA markers\<close>






subsection \<open>The 80 percent rule\<close>

lemma isnull_to_numeric: "isnull c \<Longrightarrow> to_numeric L c = None"
  by (cases c) auto

lemma length_to_numeric_dropna:
  "length (to_numeric_dropna L col) = length (filter (\<lambda>c. to_numeric L c \<noteq> None) col)"
  by (simp add: to_numeric_dropna_def List.map_filter_def)

lemma parsed_among_non_missing:
  "filter (\<lambda>c. to_numeric L c \<noteq> None) (filter (\<lambda>c. \<not> isnull c) col) =
   filter (\<lambda>c. to_numeric L c \<noteq> None) col"
  by (induction col) (auto simp: isnull_to_numeric)

lemma length_minus_missing:
  "int (length col) - int (isnull_sum col) = int (length (filter (\<lambda>c. \<not> isnull c) col))"
  using sum_length_filter_compl [of isnull col] by (simp add: isnull_sum_def)

lemma numeric_le_non_missing:
  "length (to_numeric_dropna L col) \<le> length (filter (\<lambda>c. \<not> isnull c) col)"
proof -
  have "length (filter (\<lambda>c. to_numeric L c \<noteq> None) (filter (\<lambda>c. \<not> isnull c) col))
          \<le> length (filter (\<lambda>c. \<not> isnull c) col)"
    by (rule length_filter_le)
  then have "length (filter (\<lambda>c. to_numeric L c \<noteq> None) col)
          \<le> length (filter (\<lambda>c. \<not> isnull c) col)"
    by (simp only: parsed_among_non_missing)
  then show ?thesis
    by (simp only: length_to_numeric_dropna)
qed

lemma denominator_positive:
  assumes "to_numeric_dropna L col \<noteq> []"
  shows "int (length col) - int (isnull_sum col) > 0"
proof -
  have "0 < length (to_numeric_dropna L col)" using assms by simp
  with numeric_le_non_missing [of L col]
  have "0 < length (filter (\<lambda>c. \<not> isnull c) col)" by linarith
  then show ?thesis
    by (simp only: length_minus_missing of_nat_0_less_iff)
qed

lemma classify_cases:
  "classify L col =
     Inr (if to_numeric_dropna L col \<noteq> [] \<and>
             rat_of_nat (length (to_numeric_dropna L col)) /
               rat_of_nat (length (filter (\<lambda>c. \<not> isnull c) col)) > 8 / 10
          then Numeric (series_min L (to_numeric_dropna L col)) (series_max L (to_numeric_dropna L col))
                 (series_mean L (to_numeric_dropna L col)) (series_median L (to_numeric_dropna L col))
                 (series_std L (to_numeric_dropna L col)) (length (to_numeric_dropna L col))
                 (isnull_sum col)
          else Categorical (length (value_counts col)) (value_counts col) (isnull_sum col))"
proof (cases "to_numeric_dropna L col = []")
  case True
  then show ?thesis by (simp add: classify_def Let_def)
next
  case False
  from denominator_positive [OF False]
  have pos: "int (length col) - int (isnull_sum col) \<noteq> 0" by simp
  have eq: "int (length col) - int (isnull_sum col) = int (length (filter (\<lambda>c. \<not> isnull c) col))"
    by (rule length_minus_missing)
  show ?thesis
    using False pos
    by (simp add: classify_def Let_def truediv_def eq)
qed

text \<open>
  Claim C1. For every column with at least one non-missing value, \<open>classify\<close> returns a
  Numeric entry if and only if the fraction of the non-missing values that parse as a
  number is strictly greater than 0.8; a column whose fraction is exactly 0.8 is
  Categorical. (The quotient is the exact one; see \<open>truediv\<close>.)
\<close>

theorem classify_numeric_iff_fraction_above_80:
  assumes "\<exists>c \<in> set col. \<not> isnull c"
  shows "\<exists>p. classify L col = Inr p \<and>
             (is_Numeric p \<longleftrightarrow> spec_numeric_fraction L col > 8 / 10) \<and>
             (spec_numeric_fraction L col = 8 / 10 \<longrightarrow> is_Categorical p)"
proof -
  let ?n = "to_numeric_dropna L col"
  let ?d = "filter (\<lambda>c. \<not> isnull c) col"
  from assms have d_pos: "0 < length ?d"
    by (auto simp: filter_empty_conv)
  have parses: "spec_parses L = (\<lambda>c. to_numeric L c \<noteq> None)"
    by (simp add: fun_eq_iff spec_parses_def)
  have frac: "spec_numeric_fraction L col = rat_of_nat (length ?n) / rat_of_nat (length ?d)"
    by (simp only: spec_numeric_fraction_def spec_non_missing_def parses
        parsed_among_non_missing length_to_numeric_dropna)
  have empty: "?n = [] \<Longrightarrow> \<not> rat_of_nat (length ?n) / rat_of_nat (length ?d) > 8 / 10"
    by simp
  show ?thesis
    unfolding frac classify_cases using empty by auto
qed


theorem classify_numeric_iff_fraction_above_80_witness:
  "(\<exists>c \<in> set [Text ''1'', Text ''2'', Text ''3'', Text ''4'', Text ''x''].
      \<not> isnull (c :: sym cell)) \<and>
   spec_numeric_fraction sample_pandas
     [Text ''1'', Text ''2'', Text ''3'', Text ''4'', Text ''x''] = 8 / 10 \<and>
   (\<exists>p. classify sample_pandas [Text ''1'', Text ''2'', Text ''3'', Text ''4'', Text ''x'']
          = Inr p \<and> is_Categorical p)"
proof -
  let ?col = "[Text ''1'', Text ''2'', Text ''3'', Text ''4'', Text ''x''] :: sym cell list"
  have nm: "\<exists>c \<in> set ?col. \<not> isnull c" by simp
  have fr: "spec_numeric_fraction sample_pandas ?col = 8 / 10"
    by (simp add: spec_numeric_fraction_def spec_non_missing_def spec_parses_def
        sample_pandas_def digits_to_numeric_def is_digit_def)
  from classify_numeric_iff_fraction_above_80 [OF nm, of sample_pandas] fr
  show ?thesis using nm by auto
qed

subsection \<open>All-missing columns, no division by zero\<close>

lemma count_values_all_missing: "\<forall>c \<in> set col. isnull c \<Longrightarrow> count_values col acc = acc"
  by (induction col arbitrary: acc) auto

lemma denominator_zero_iff: 
  "int (length col) - int (isnull_sum col) = 0 \<longleftrightarrow> (\<forall>c \<in> set col. isnull c)"
  by (simp only: length_minus_missing) (simp add: filter_empty_conv)

lemma all_missing_not_numeric:
  "\<forall>c \<in> set col. isnull c \<Longrightarrow> to_numeric_dropna L col = []"
  by (simp add: to_numeric_dropna_def List.map_filter_def filter_empty_conv isnull_to_numeric)

lemma isnull_sum_all_missing: "\<forall>c \<in> set col. isnull c \<Longrightarrow> isnull_sum col = length col"
  by (simp add: isnull_sum_def)

text \<open>
  Claim C2. \<open>classify\<close> returns an entry for every column, so the division of line 49 is
  never reached with a zero divisor. When the divisor (column length minus missing
  count) is zero, no value of the column converts to a number, and the entry is
  Categorical with no unique value, no counts and a missing count equal to the number
  of rows.
\<close>

theorem all_missing_column_is_categorical:
  "(\<exists>p. classify L col = Inr p) \<and>
   (int (length col) - int (isnull_sum col) = 0 \<longrightarrow>
      to_numeric_dropna L col = [] \<and>
      classify L col = Inr (Categorical 0 [] (length col)))"
proof (intro conjI impI)
  show "\<exists>p. classify L col = Inr p"
    by (subst classify_cases) blast
next
  assume "int (length col) - int (isnull_sum col) = 0"
  then have all: "\<forall>c \<in> set col. isnull c"
    by (simp only: denominator_zero_iff)
  show "to_numeric_dropna L col = []"
    using all by (rule all_missing_not_numeric)
  then show "classify L col = Inr (Categorical 0 [] (length col))"
    using all
    by (simp add: classify_cases value_counts_def count_values_all_missing
        isnull_sum_all_missing)
qed

theorem all_missing_column_is_categorical_witness:
  "int (length [Missing, Missing, Missing :: sym cell]) -
     int (isnull_sum [Missing, Missing, Missing :: sym cell]) = 0 \<and>
   to_numeric_dropna sample_pandas [Missing, Missing, Missing] = [] \<and>
   classify sample_pandas [Missing, Missing, Missing] = Inr (Categorical 0 [] 3)"
  using all_missing_column_is_categorical [of sample_pandas "[Missing, Missing, Missing]"]
  by (simp add: isnull_sum_def)

subsection \<open>The missing percentage\<close>

lemma update_fresh: "k \<notin> fst ` set al \<Longrightarrow> AList.update k v al = al @ [(k, v)]"
  by (induction al) auto

lemma classify_projr: "classify L col = Inr (projr (classify L col))"
  by (simp add: classify_cases)

lemma missing_count_classify: "missing_count (projr (classify L col)) = isnull_sum col"
  by (simp add: classify_cases)

lemma analyze_columns_distinct:
  assumes "distinct (map fst cols)" and "fst ` set acc \<inter> fst ` set cols = {}"
  shows "analyze_columns L cols acc =
           Inr (acc @ map (\<lambda>nc. (fst nc, projr (classify L (snd nc)))) cols)"
  using assms
proof (induction cols arbitrary: acc)
  case Nil
  then show ?case by simp
next
  case (Cons nc cols)
  obtain p where p: "classify L (snd nc) = Inr p"
    using classify_projr by blast
  have fresh: "fst nc \<notin> fst ` set acc" using Cons.prems(2) by auto
  have step: "analyze_columns L (nc # cols) acc = analyze_columns L cols (acc @ [(fst nc, p)])"
    by (simp add: p update_fresh [OF fresh])
  have "distinct (map fst cols)" using Cons.prems(1) by simp
  moreover have "fst ` set (acc @ [(fst nc, p)]) \<inter> fst ` set cols = {}"
    using Cons.prems by auto
  ultimately show ?case
    using Cons.IH [of "acc @ [(fst nc, p)]"] step by (simp add: p)
qed

lemma isnull_sum_sum_infos:
  "isnull_sum_sum df =
     sum_list (map (\<lambda>e. missing_count (snd e))
       (map (\<lambda>nc. (fst nc, projr (classify L (snd nc)))) (columns df)))"
  by (simp add: isnull_sum_sum_def comp_def missing_count_classify)

text \<open>
  Claim C4. For a frame as the reader returns it, the loop over the columns ends with
  one entry per column, and the missing percentage is the total of the entries' missing
  counts divided by rows times columns, times 100; it is 0 when the frame has no row or
  no column. The computation never divides by zero.
\<close>

theorem missing_percentage_formula:
  assumes "wf_dataframe df"
  shows "\<exists>column_info.
           analyze_columns L (columns df) [] = Inr column_info \<and>
           missing_percentage df =
             Inr (if index_len df = 0 \<or> length (columns df) = 0 then 0
                  else rat_of_nat (sum_list (map (\<lambda>e. missing_count (snd e)) column_info)) /
                       rat_of_nat (index_len df * length (columns df)) * 100)"
proof -
  let ?info = "map (\<lambda>nc. (fst nc, projr (classify L (snd nc)))) (columns df)"
  from assms have "distinct (map fst (columns df))"
    by (simp add: wf_dataframe_def)
  then have run: "analyze_columns L (columns df) [] = Inr ?info"
    using analyze_columns_distinct [of "columns df" "[]" L] by simp
  have "missing_percentage df =
          Inr (if index_len df = 0 \<or> length (columns df) = 0 then 0
               else rat_of_nat (isnull_sum_sum df) /
                    rat_of_nat (index_len df * length (columns df)) * 100)"
    by (simp add: missing_percentage_def shape_def truediv_def Let_def)
  then show ?thesis
    using run by (simp only: isnull_sum_sum_infos [of df L]) blast
qed

theorem missing_percentage_formula_witness:
  "wf_dataframe \<lparr>index_len = 2,
       columns = [(''a'', [Num (Lit 1), Missing]), (''b'', [Text ''x'', Text ''y''])]\<rparr> \<and>
   (\<exists>column_info.
      analyze_columns sample_pandas
        [(''a'', [Num (Lit 1), Missing]), (''b'', [Text ''x'', Text ''y''])] [] =
          Inr column_info \<and>
      sum_list (map (\<lambda>e. missing_count (snd e)) column_info) = 1) \<and>
   missing_percentage \<lparr>index_len = 2,
       columns = [(''a'', [Num (Lit 1), Missing]), (''b'', [Text ''x'', Text ''y''])]\<rparr>
     = Inr 25"
proof -
  let ?df = "\<lparr>index_len = 2,
       columns = [(''a'', [Num (Lit 1), Missing]), (''b'', [Text ''x'', Text ''y''])]\<rparr>"
  have wf: "wf_dataframe ?df" by (simp add: wf_dataframe_def)
  from missing_percentage_formula [OF wf, of sample_pandas]
  obtain column_info where
    run: "analyze_columns sample_pandas (columns ?df) [] = Inr column_info" and
    pct: "missing_percentage ?df =
            Inr (if index_len ?df = 0 \<or> length (columns ?df) = 0 then 0
                 else rat_of_nat (sum_list (map (\<lambda>e. missing_count (snd e)) column_info)) /
                      rat_of_nat (index_len ?df * length (columns ?df)) * 100)"
    by blast
  have "analyze_columns sample_pandas (columns ?df) [] =
          Inr [(''a'', Numeric (Reduce ''min'' [Lit 1]) (Reduce ''max'' [Lit 1])
                  (Reduce ''mean'' [Lit 1]) (Reduce ''median'' [Lit 1])
                  (Reduce ''std'' [Lit 1]) 1 1),
               (''b'', Categorical 2 [(Text ''x'', 1), (Text ''y'', 1)] 0)]"
    by code_simp
  with run have total: "sum_list (map (\<lambda>e. missing_count (snd e)) column_info) = 1"
    by auto
  with pct have "missing_percentage ?df = Inr 25" by simp
  with wf run total show ?thesis by auto
qed

subsection \<open>Value counts\<close>

lemma map_of_tally:
  "map_of (tally v kns) =
     (map_of kns)(v \<mapsto> (case map_of kns v of None \<Rightarrow> 1 | Some n \<Rightarrow> Suc n))"
  by (induction kns) (auto simp: fun_eq_iff)

lemma keys_tally:
  "map fst (tally v kns) = (if v \<in> fst ` set kns then map fst kns else map fst kns @ [v])"
  by (induction kns) auto

lemma distinct_tally: "distinct (map fst kns) \<Longrightarrow> distinct (map fst (tally v kns))"
  by (simp add: keys_tally)

lemma sum_tally: "sum_list (map snd (tally v kns)) = Suc (sum_list (map snd kns))"
  by (induction kns) auto

lemma distinct_count_values:
  "distinct (map fst acc) \<Longrightarrow> distinct (map fst (count_values col acc))"
  by (induction col arbitrary: acc) (auto simp: distinct_tally)

lemma sum_count_values:
  "sum_list (map snd (count_values col acc)) =
     sum_list (map snd acc) + length (filter (\<lambda>c. \<not> isnull c) col)"
  by (induction col arbitrary: acc) (auto simp: sum_tally)

lemma map_of_count_values:
  "map_of (count_values col acc) v =
     (case map_of acc v of
        None \<Rightarrow> if v \<in> set col \<and> \<not> isnull v then Some (count_list col v) else None
      | Some n \<Rightarrow> Some (n + (if isnull v then 0 else count_list col v)))"
proof (induction col arbitrary: acc)
  case Nil
  then show ?case by (simp split: option.split)
next
  case (Cons c col)
  show ?case
  proof (cases "isnull c")
    case True
    then show ?thesis
      using Cons.IH [of acc] by (auto split: option.split)
  next
    case False
    then show ?thesis
      using Cons.IH [of "tally c acc"]
      by (auto simp: map_of_tally count_list_0_iff split: option.split)
  qed
qed

lemma sum_list_insort_key:
  "sum_list (map g (insort_key f x xs)) = g x + sum_list (map g xs)"
  for g :: "'a \<Rightarrow> nat"
  by (induction xs) auto

lemma sum_list_sort_key: "sum_list (map g (sort_key f xs)) = sum_list (map g xs)"
  for g :: "'a \<Rightarrow> nat"
  by (induction xs) (auto simp: sum_list_insort_key)

lemma distinct_keys_sort_key:
  "distinct (map fst (sort_key f xs)) = distinct (map fst xs)"
  by (simp add: distinct_map)

lemma map_of_sort_key:
  assumes "distinct (map fst xs)"
  shows "map_of (sort_key f xs) = map_of xs"
proof -
  have "distinct (map fst (sort_key f xs))"
    using assms by (simp only: distinct_keys_sort_key)
  moreover have "set (sort_key f xs) = set xs" by simp
  ultimately show ?thesis
    using assms by (simp only: map_of_inject_set)
qed

lemma distinct_value_counts: "distinct (map fst (value_counts col))"
  by (simp add: value_counts_def distinct_keys_sort_key distinct_count_values)

lemma map_of_value_counts:
  "map_of (value_counts col) v =
     (if v \<in> set col \<and> \<not> isnull v then Some (count_list col v) else None)"
proof -
  have "distinct (map fst (count_values col []))"
    by (simp add: distinct_count_values)
  then have "map_of (value_counts col) = map_of (count_values col [])"
    unfolding value_counts_def by (rule map_of_sort_key)
  then show ?thesis
    by (simp add: map_of_count_values)
qed

lemma sum_value_counts:
  "sum_list (map snd (value_counts col)) = length (filter (\<lambda>c. \<not> isnull c) col)"
  by (simp add: value_counts_def sum_list_sort_key sum_count_values)


lemma length_non_missing: "length (filter (\<lambda>c. \<not> isnull c) col) = length col - isnull_sum col"
  using sum_length_filter_compl [of isnull col] by (simp add: isnull_sum_def)

text \<open>
  Claim C6. For every column whose entry is Categorical, the \<open>counts\<close> of the entry are a
  dict (no key twice) that maps each non-missing value of the column to the number of
  cells equal to it, and nothing else to anything; cells are compared as they are, so
  \<open>Yes\<close> and \<open>yes\<close> are two keys. \<open>unique_values\<close> is the number of distinct keys, and
  the counts add up to the number of rows minus the missing count.
\<close>

theorem categorical_counts_are_exact_frequencies:
  assumes "classify L col = Inr p" and "is_Categorical p"
  shows "distinct (map fst (counts p)) \<and>
         (\<forall>v. map_of (counts p) v =
                (if v \<in> set col \<and> \<not> isnull v then Some (count_list col v) else None)) \<and>
         unique_values p = card (fst ` set (counts p)) \<and>
         sum_list (map snd (counts p)) = length col - missing_count p"
proof -
  from assms have p: "p = Categorical (length (value_counts col)) (value_counts col) (isnull_sum col)"
    by (auto simp: classify_cases split: if_splits)
  have "card (fst ` set (value_counts col)) = length (value_counts col)"
    using distinct_card [OF distinct_value_counts [of col]] by simp
  then show ?thesis
    by (simp add: p distinct_value_counts map_of_value_counts sum_value_counts
        length_non_missing)
qed

theorem categorical_counts_are_exact_frequencies_witness:
  "classify sample_pandas [Text ''Yes'', Text ''yes'', Missing, Text ''Yes''] =
     Inr (Categorical 2 [(Text ''Yes'', 2), (Text ''yes'', 1)] 1) \<and>
   is_Categorical (Categorical 2 [(Text ''Yes'', 2), (Text ''yes'', 1 :: nat)] 1 :: sym column_info) \<and>
   map_of [(Text ''Yes'', 2), (Text ''yes'', 1 :: nat)] (Text ''Yes'' :: sym cell) =
     Some (count_list [Text ''Yes'', Text ''yes'', Missing, Text ''Yes''] (Text ''Yes'')) \<and>
   sum_list (map snd [(Text ''Yes'' :: sym cell, 2), (Text ''yes'', 1 :: nat)]) =
     length [Text ''Yes'' :: sym cell, Text ''yes'', Missing, Text ''Yes''] - 1"
proof -
  let ?col = "[Text ''Yes'', Text ''yes'', Missing, Text ''Yes''] :: sym cell list"
  let ?p = "Categorical 2 [(Text ''Yes'', 2), (Text ''yes'', 1)] 1 :: sym column_info"
  have run: "classify sample_pandas ?col = Inr ?p" by code_simp
  have cat: "is_Categorical ?p" by simp
  from categorical_counts_are_exact_frequencies [OF run cat] run
  show ?thesis by simp
qed

subsection \<open>Parse failures\<close>

text \<open>
  Claim C7. When the reader raises on the input, \<open>analyze_csv_data\<close> returns the error
  result, which carries the message and nothing else: no summary, no column entries and
  no frame.
\<close>

theorem parse_failure_returns_only_the_error:
  assumes "read_csv L csv_content = Inl reason"
  shows "analyze_csv_data L csv_content = Inr (Failed (''Failed to parse CSV: '' @ reason))"
  using assms by (simp add: analyze_csv_data_def)

theorem parse_failure_returns_only_the_error_witness:
  "read_csv sample_pandas [] = Inl ''No columns to parse from file'' \<and>
   analyze_csv_data sample_pandas [] =
     Inr (Failed ''Failed to parse CSV: No columns to parse from file'')"
proof -
  have r: "read_csv sample_pandas [] = Inl ''No columns to parse from file''"
    by (simp add: sample_pandas_def sample_read_csv_def)
  from parse_failure_returns_only_the_error [OF r] r show ?thesis by simp
qed

subsection \<open>Missing cells\<close>






subsection \<open>NA markers\<close>






subsection \<open>The whole analysis\<close>

text \<open>
  A Numeric entry holds the library's reductions of exactly the converted values of the
  column, in column order.
\<close>

lemma numeric_entry_fields:
  assumes "classify L col = Inr p" and "is_Numeric p"
  shows "info_std p = series_std L (to_numeric_dropna L col) \<and>
         info_count p = length (to_numeric_dropna L col) \<and>
         info_min p = series_min L (to_numeric_dropna L col) \<and>
         info_max p = series_max L (to_numeric_dropna L col) \<and>
         info_mean p = series_mean L (to_numeric_dropna L col) \<and>
         info_median p = series_median L (to_numeric_dropna L col)"
  using assms by (auto simp: classify_cases split: if_splits)

subsection \<open>The standard deviation of a numeric column\<close>

lemma sample_std_formula:
  assumes "2 \<le> length vs"
  shows "sample_std (map Finite vs) =
           Finite (sqrt (sum_list (map (\<lambda>v. (v - sum_list vs / real (length vs))\<^sup>2) vs) /
                         (real (length vs) - 1)))"
proof -
  have fv: "finite_values (map Finite vs) = vs" by (induction vs) auto
  from assms have "real (length vs - 1) = real (length vs) - 1" by (simp add: of_nat_diff)
  with assms show ?thesis by (simp add: sample_std_def fv Let_def)
qed

lemma sample_std_single: "length xs = 1 \<Longrightarrow> sample_std xs = NaN"
proof -
  assume "length xs = 1"
  then obtain x where "xs = [x]" by (cases xs) auto
  then show ?thesis by (cases x) (simp_all add: sample_std_def)
qed

text \<open>
  Claim C5. When the library's \<open>std\<close> is the sample standard deviation, every column
  gets an entry (no error is raised), and the \<open>std\<close> of a Numeric entry is the sample
  standard deviation of exactly the converted values of the column: the square root of
  the sum of squared distances from the mean, divided by \<open>n - 1\<close>, when there are two
  values or more, and NaN when there is one.
\<close>

theorem numeric_std_is_sample_std:
  assumes "series_std L = sample_std"
  shows "\<exists>p. classify L col = Inr p \<and>
             (is_Numeric p \<longrightarrow>
                info_std p = sample_std (to_numeric_dropna L col) \<and>
                info_count p = length (to_numeric_dropna L col) \<and>
                (info_count p = 1 \<longrightarrow> info_std p = NaN) \<and>
                (\<forall>vs. to_numeric_dropna L col = map Finite vs \<and> 2 \<le> length vs \<longrightarrow>
                   info_std p =
                     Finite (sqrt (sum_list (map (\<lambda>v. (v - sum_list vs / real (length vs))\<^sup>2) vs) /
                                   (real (length vs) - 1)))))"
  using assms
  by (auto simp: classify_cases sample_std_single sample_std_formula)

theorem numeric_std_is_sample_std_witness:
  "series_std exact_pandas = sample_std \<and>
   (\<exists>p. classify exact_pandas [Num (Finite 7), Missing] = Inr p \<and> is_Numeric p \<and>
        info_count p = 1 \<and> info_std p = NaN) \<and>
   (\<exists>p. classify exact_pandas [Text ''1'', Text ''2'', Text ''3''] = Inr p \<and> is_Numeric p \<and>
        to_numeric_dropna exact_pandas [Text ''1'', Text ''2'', Text ''3''] =
          map Finite [1, 2, 3] \<and>
        info_std p = Finite 1)"
proof -
  have lib: "series_std exact_pandas = sample_std" by (simp add: exact_pandas_def)
  have conv: "to_numeric_dropna exact_pandas [Text ''1'', Text ''2'', Text ''3''] =
          map Finite [1, 2, 3]"
    by (simp add: to_numeric_dropna_def List.map_filter_def exact_pandas_def
        digits_to_number_def is_digit_def)
  have num1: "\<exists>p. classify exact_pandas [Num (Finite 7), Missing] = Inr p \<and> is_Numeric p"
    by (simp add: classify_cases to_numeric_dropna_def List.map_filter_def)
  have num3: "\<exists>p. classify exact_pandas [Text ''1'', Text ''2'', Text ''3''] = Inr p \<and> is_Numeric p"
    by (simp add: classify_cases conv)
  from numeric_std_is_sample_std [OF lib, of "[Num (Finite 7), Missing]"] num1
  have one: "\<exists>p. classify exact_pandas [Num (Finite 7), Missing] = Inr p \<and> is_Numeric p \<and>
        info_count p = 1 \<and> info_std p = NaN"
    by (auto simp: to_numeric_dropna_def List.map_filter_def)
  have ev: "sample_std [Finite 1, Finite 2, Finite 3] = Finite 1"
    by (simp add: sample_std_def Let_def power2_eq_square)
  from numeric_std_is_sample_std [OF lib, of "[Text ''1'', Text ''2'', Text ''3'']"] num3 conv ev
  have three: "\<exists>p. classify exact_pandas [Text ''1'', Text ''2'', Text ''3''] = Inr p \<and>
        is_Numeric p \<and> info_std p = Finite 1"
    by auto
  from lib one three conv show ?thesis by auto
qed

text \<open>After the reader, nothing in the function fails.\<close>

lemma analyze_columns_total: "\<exists>column_info. analyze_columns L cols acc = Inr column_info"
proof (induction cols arbitrary: acc)
  case Nil
  then show ?case by simp
next
  case (Cons nc cols)
  obtain p where p: "classify L (snd nc) = Inr p"
    using classify_projr by blast
  show ?case
    using Cons.IH [of "AList.update (fst nc) p acc"] by (simp add: p)
qed

lemma missing_percentage_total: "\<exists>q. missing_percentage df = Inr q"
  by (simp add: missing_percentage_def shape_def truediv_def Let_def)

lemma analyze_csv_data_total: "\<exists>r. analyze_csv_data L csv_content = Inr r"
proof (cases "read_csv L csv_content")
  case (Inl e)
  then show ?thesis by (simp add: analyze_csv_data_def)
next
  case (Inr df)
  obtain q where q: "missing_percentage df = Inr q"
    using missing_percentage_total by blast
  obtain ci where ci: "analyze_columns L (columns df) [] = Inr ci"
    using analyze_columns_total by blast
  show ?thesis by (simp add: analyze_csv_data_def Inr q ci)
qed

text \<open>The instance on the three-row table, and on two columns around the 80 percent mark.\<close>

lemma analyze_sample_csv:
  "analyze_csv_data sample_pandas sample_csv =
     Inr (Analysis
       (''The dataset contains 3 rows and 2 columns.'' @ newline @
        ''Total missing values across the dataset: 0 (0.00% of all cells).'' @ newline @
        newline @ ''Column Details:'' @ newline @
        ''- **a**: Numeric (Min: min, Max: max, Mean: mean, Median: median, '' @
        ''Std Dev: std, Non-null: 3). Missing: 0 values.'' @ newline @
        ''- **b**: Categorical (3 unique values). Missing: 0 values.'' @ newline)
       [(''a'', Numeric (Reduce ''min'' [Lit 1, Lit 2, Lit 3]) (Reduce ''max'' [Lit 1, Lit 2, Lit 3])
                  (Reduce ''mean'' [Lit 1, Lit 2, Lit 3]) (Reduce ''median'' [Lit 1, Lit 2, Lit 3])
                  (Reduce ''std'' [Lit 1, Lit 2, Lit 3]) 3 0),
        (''b'', Categorical 3 [(Text ''x'', 1), (Text ''y'', 1), (Text ''z'', 1)] 0)]
       sample_frame)"
  by code_simp

lemma classify_two_of_three:
  "classify sample_pandas [Text ''1'', Text ''2'', Text ''foo''] =
     Inr (Categorical 3 [(Text ''1'', 1), (Text ''2'', 1), (Text ''foo'', 1)] 0)"
  by code_simp

lemma classify_five_of_six:
  "classify sample_pandas [Text ''1'', Text ''2'', Text ''3'', Text ''4'', Text ''5'', Text ''x'', Missing] =
     Inr (Numeric (Reduce ''min'' [Lit 1, Lit 2, Lit 3, Lit 4, Lit 5])
            (Reduce ''max'' [Lit 1, Lit 2, Lit 3, Lit 4, Lit 5])
            (Reduce ''mean'' [Lit 1, Lit 2, Lit 3, Lit 4, Lit 5])
            (Reduce ''median'' [Lit 1, Lit 2, Lit 3, Lit 4, Lit 5])
            (Reduce ''std'' [Lit 1, Lit 2, Lit 3, Lit 4, Lit 5]) 5 1)"
  by code_simp

end
